theory Spec2Isabelle
  imports Complex_Main
begin

section \<open>JavaScript values\<close>

text \<open>
  The handler receives \<open>sourceReferences\<close> as a value of TypeScript type \<open>unknown\<close>
  (a Prisma Json column), so the model needs the values of the JavaScript runtime.
  Numbers are rationals, with \<open>NaN\<close> apart because it is falsy. An object is the list
  of its own properties; a property is read at its first entry.
\<close>

datatype js_value =
    JUndefined
  | JNull
  | JBool bool
  | JNum rat
  | JNaN
  | JStr string
  | JArr "js_value list"
  | JObj "(string \<times> js_value) list"

datatype exn = TypeError | RecordNotFound | RepositoryError string

text \<open>JavaScript's ToBoolean, as used by \<open>!refs\<close>, \<open>a ? b : c\<close> and \<open>a || b\<close>.\<close>

fun truthy :: "js_value \<Rightarrow> bool" where
  "truthy JUndefined = False"
| "truthy JNull = False"
| "truthy (JBool b) = b"
| "truthy (JNum n) = (n \<noteq> 0)"
| "truthy JNaN = False"
| "truthy (JStr s) = (s \<noteq> [])"
| "truthy (JArr xs) = True"
| "truthy (JObj kvs) = True"

text \<open>
  The property read \<open>ref.key\<close>, for the two keys the handler reads (\<open>documentId\<close> and
  \<open>pageNumber\<close>, which no primitive and no array has): a TypeError on \<open>null\<close> and
  \<open>undefined\<close>, \<open>undefined\<close> where the property is missing.
\<close>

fun getProperty :: "js_value \<Rightarrow> string \<Rightarrow> exn + js_value" where
  "getProperty JUndefined key = Inl TypeError"
| "getProperty JNull key = Inl TypeError"
| "getProperty (JObj kvs) key = Inr (case map_of kvs key of None \<Rightarrow> JUndefined | Some v \<Rightarrow> v)"
| "getProperty v key = Inr JUndefined"

text \<open>\<open>a ?? b\<close>: the right operand replaces \<open>null\<close> and \<open>undefined\<close> only.\<close>

definition nullish :: "js_value \<Rightarrow> bool" where
  "nullish v = (v = JUndefined \<or> v = JNull)"

text \<open>\<open>Array.prototype.map\<close> with a callback that may throw: the first throw ends it.\<close>

fun mapE :: "('a \<Rightarrow> exn + 'b) \<Rightarrow> 'a list \<Rightarrow> exn + 'b list" where
  "mapE f [] = Inr []"
| "mapE f (x # xs) =
     (case f x of
        Inl e \<Rightarrow> Inl e
      | Inr y \<Rightarrow> (case mapE f xs of Inl e \<Rightarrow> Inl e | Inr ys \<Rightarrow> Inr (y # ys)))"

section \<open>Data model of the next-action handler\<close>

type_synonym timestamp = int

text \<open>The members of \<open>NEXT_ACTION_STATUS\<close> that the handler writes.\<close>

datatype next_action_status = SKIPPED | PROCESSING | FAILED

record document =
  doc_id :: string
  doc_filename :: string

record check_list_set =
  enableNextAction :: bool
  nextActionTemplateId :: "string option"

record review_job =
  checkListSet :: check_list_set
  documents :: "document list"
  nextActionStatus :: "next_action_status option"
  updatedAt :: timestamp

record prompt_template_row =
  row_prompt :: string
  row_toolConfigurationId :: "string option"

record check_list_parent =
  parent_name :: string

record check_list_row =
  cl_id :: string
  cl_name :: string
  cl_description :: "string option"
  cl_parent :: "check_list_parent option"

text \<open>
  A review result as stored (\<open>'c\<close> the selected check-list row, \<open>'s\<close> the Json column)
  and as handed to the template (\<open>'c\<close> the reshaped check list, \<open>'s\<close> the resolved
  references) has the same remaining fields.
\<close>

record ('c, 's) review_result =
  checkList :: 'c
  result :: "string option"
  userOverride :: bool
  explanation :: "string option"
  extractedText :: "string option"
  confidenceScore :: "rat option"
  userComment :: "string option"
  sourceReferences :: 's

record review_result_row = "(check_list_row, js_value) review_result" +
  jobId :: string

record enriched_check_list =
  name :: string
  description :: "string option"
  parentName :: "string option"

record SourceReference =
  filename :: string
  pageNumber :: js_value

type_synonym EnrichedReviewResult = "(enriched_check_list, SourceReference list) review_result"

record TemplateData =
  allResults :: "EnrichedReviewResult list"

record KnowledgeBaseConfig =
  knowledgeBaseId :: string
  kb_description :: "string option"

record McpServerConfig =
  command :: string
  args :: "string list"
  env :: "(string \<times> string) list option"

record McpConfig =
  mcpServers :: "McpServerConfig list option"

text \<open>
  The repository's tool configuration and \<open>ToolConfigurationOutput\<close> have the same
  shape: the optional fields are \<open>None\<close> where the object has no such property.
\<close>

record ToolConfiguration =
  tc_id :: string
  tc_name :: string
  knowledgeBase :: "KnowledgeBaseConfig list option"
  codeInterpreter :: "bool option"
  mcpConfig :: "McpConfig option"

record PromptTemplateRef =
  prompt :: string

record PreGenerateNextActionResult =
  shouldGenerate :: bool
  promptTemplate :: "PromptTemplateRef option"
  templateData :: "TemplateData option"
  toolConfiguration :: "ToolConfiguration option"
  message :: "string option"

record PreGenerateNextActionParams =
  reviewJobId :: string
  userId :: "string option"

text \<open>
  The database as the handler sees it: the tables it reads by primary key, the
  review-result table in the order \<open>findMany\<close> returns its rows, and the tool
  configuration repository, whose \<open>findById\<close> returns a configuration or throws.
\<close>

record database =
  reviewJobs :: "string \<rightharpoonup> review_job"
  promptTemplates :: "string \<rightharpoonup> prompt_template_row"
  reviewResults :: "review_result_row list"
  toolConfigurations :: "string \<Rightarrow> exn + ToolConfiguration"

datatype db_op =
    ReviewJobFindUnique string
  | ReviewJobUpdate string next_action_status timestamp
  | PromptTemplateFindUnique string
  | ReviewResultFindMany string
  | ToolConfigurationFindById string

text \<open>
  What a run leaves behind: the value the promise resolves to (\<open>Inr\<close>) or the
  exception it rejects with (\<open>Inl\<close>), the database after the run, and the database
  operations issued, in order.
\<close>

record run =
  outcome :: "exn + PreGenerateNextActionResult"
  finalDb :: database
  ops :: "db_op list"

section \<open>The handler\<close>

definition DEFAULT_NEXT_ACTION_PROMPT :: string where
  "DEFAULT_NEXT_ACTION_PROMPT =
     ''\<newline>You are an AI assistant that generates concise, actionable next steps based on document review results.\<newline>\<newline>## Review Results\<newline>{{all_results}}\<newline>\<newline>## Output Format\<newline>Generate a markdown-formatted response. For each failed item, output in this format:\<newline>\<newline>1. **[Check item name]**\<newline>   - Location: [filename, page number]\<newline>   - Action: [Concrete action to take]\<newline>\<newline>## Guidelines\<newline>- Use heading level 3 (###) or lower - never use h1 or h2\<newline>- Be concise - one item per failed check\<newline>- Specify the exact location (filename, page number)\<newline>- Provide concrete action, not general advice\<newline>- Do NOT include general improvement suggestions\<newline>- Do NOT include warnings or disclaimers\<newline>- IMPORTANT: Output ENTIRELY in the same language as the input document\<newline>''"

text \<open>
  \<open>db.reviewJob.update\<close> with \<open>nextActionStatus\<close> and \<open>updatedAt\<close>: Prisma throws
  when the record to update does not exist.
\<close>

definition reviewJob_update ::
  "string \<Rightarrow> next_action_status \<Rightarrow> timestamp \<Rightarrow> database \<Rightarrow> exn + database" where
  "reviewJob_update jid st t db =
     (case reviewJobs db jid of
        None \<Rightarrow> Inl RecordNotFound
      | Some job \<Rightarrow>
          Inr (db\<lparr>reviewJobs := (reviewJobs db)(jid \<mapsto> job\<lparr>nextActionStatus := Some st, updatedAt := t\<rparr>)\<rparr>))"

text \<open>\<open>db.reviewResult.findMany\<close> with \<open>where: { reviewJobId }\<close>.\<close>

definition reviewResult_findMany :: "database \<Rightarrow> string \<Rightarrow> review_result_row list" where
  "reviewResult_findMany db jid = filter (\<lambda>r. jobId r = jid) (reviewResults db)"

text \<open>
  \<open>new Map(reviewJob.documents.map((doc) => [doc.id, doc.filename]))\<close>: a later entry
  replaces an earlier one with the same key.
\<close>

definition documentMap :: "document list \<Rightarrow> (string \<rightharpoonup> string)" where
  "documentMap docs = map_of (rev (map (\<lambda>doc. (doc_id doc, doc_filename doc)) docs))"

text \<open>\<open>documentMap.get(key)\<close>: the keys of the map are strings, no other value equals one.\<close>

fun mapGet :: "(string \<rightharpoonup> string) \<Rightarrow> js_value \<Rightarrow> string option" where
  "mapGet m (JStr k) = m k"
| "mapGet m v = None"

text \<open>The callback of \<open>parsed.map\<close> in \<open>resolveSourceReferences\<close>.\<close>

definition resolveRef :: "(string \<rightharpoonup> string) \<Rightarrow> js_value \<Rightarrow> exn + SourceReference" where
  "resolveRef dm ref =
     (case getProperty ref ''documentId'' of
        Inl e \<Rightarrow> Inl e
      | Inr documentId \<Rightarrow>
          (case getProperty ref ''pageNumber'' of
             Inl e \<Rightarrow> Inl e
           | Inr pn \<Rightarrow>
               Inr \<lparr>filename =
                      (if truthy documentId
                       then (case mapGet dm documentId of
                               None \<Rightarrow> ''Unknown''
                             | Some f \<Rightarrow> if f \<noteq> [] then f else ''Unknown'')
                       else ''Unknown''),
                    pageNumber = (if nullish pn then JNull else pn)\<rparr>))"

text \<open>
  What \<open>parsed\<close> holds after the JSON-string step: \<open>None\<close> where \<open>JSON.parse\<close>
  threw. \<open>jsonParse\<close> is the runtime's \<open>JSON.parse\<close>, \<open>None\<close> on a SyntaxError.
\<close>

definition parsedRefs :: "(string \<Rightarrow> js_value option) \<Rightarrow> js_value \<Rightarrow> js_value option" where
  "parsedRefs jsonParse refs = (case refs of JStr s \<Rightarrow> jsonParse s | _ \<Rightarrow> Some refs)"

definition resolveSourceReferences ::
  "(string \<Rightarrow> js_value option) \<Rightarrow> (string \<rightharpoonup> string) \<Rightarrow> js_value \<Rightarrow> exn + SourceReference list" where
  "resolveSourceReferences jsonParse dm refs =
     (if \<not> truthy refs then Inr []
      else (case parsedRefs jsonParse refs of
              None \<Rightarrow> Inr []
            | Some parsed \<Rightarrow>
                (case parsed of
                   JArr elems \<Rightarrow> mapE (resolveRef dm) elems
                 | _ \<Rightarrow> Inr [])))"

text \<open>The callback of \<open>reviewResults.map\<close> that builds \<open>templateData.allResults\<close>.\<close>

definition enrich ::
  "(string \<Rightarrow> js_value option) \<Rightarrow> (string \<rightharpoonup> string) \<Rightarrow> review_result_row
     \<Rightarrow> exn + EnrichedReviewResult" where
  "enrich jsonParse dm item =
     (case resolveSourceReferences jsonParse dm (sourceReferences item) of
        Inl e \<Rightarrow> Inl e
      | Inr refs \<Rightarrow>
          Inr \<lparr>checkList =
                 \<lparr>name = cl_name (checkList item),
                  description = cl_description (checkList item),
                  parentName = map_option parent_name (cl_parent (checkList item))\<rparr>,
               result = result item,
               userOverride = userOverride item,
               explanation = explanation item,
               extractedText = extractedText item,
               confidenceScore = confidenceScore item,
               userComment = userComment item,
               sourceReferences = refs\<rparr>)"

text \<open>The body of the \<open>try\<close> block after \<open>findById\<close> returned \<open>config\<close>.\<close>

definition agentFormat :: "ToolConfiguration \<Rightarrow> ToolConfiguration" where
  "agentFormat config =
     \<lparr>tc_id = tc_id config,
      tc_name = tc_name config,
      knowledgeBase =
        (case knowledgeBase config of
           None \<Rightarrow> None
         | Some kbs \<Rightarrow> if kbs \<noteq> [] then Some kbs else None),
      codeInterpreter = (if codeInterpreter config = Some True then Some True else None),
      mcpConfig =
        (case mcpConfig config of
           None \<Rightarrow> None
         | Some mc \<Rightarrow>
             (case mcpServers mc of
                None \<Rightarrow> None
              | Some servers \<Rightarrow> if servers \<noteq> [] then Some mc else None))\<rparr>"

text \<open>The shape of the early returns, and of the final one.\<close>

definition declined :: "string \<Rightarrow> PreGenerateNextActionResult" where
  "declined msg =
     \<lparr>shouldGenerate = False, promptTemplate = None, templateData = None,
      toolConfiguration = None, message = Some msg\<rparr>"

definition prepared ::
  "string \<Rightarrow> TemplateData \<Rightarrow> ToolConfiguration option \<Rightarrow> PreGenerateNextActionResult" where
  "prepared promptToUse td tc =
     \<lparr>shouldGenerate = True, promptTemplate = Some \<lparr>prompt = promptToUse\<rparr>,
      templateData = Some td, toolConfiguration = tc, message = None\<rparr>"

text \<open>
  Steps 5 to 7 and the final return, entered with the prompt and the tool
  configuration id that step 4 chose (\<open>tcId = None\<close> for \<open>undefined\<close>).
\<close>

definition gather ::
  "(string \<Rightarrow> js_value option) \<Rightarrow> database \<Rightarrow> string \<Rightarrow> review_job \<Rightarrow> db_op list
     \<Rightarrow> string \<Rightarrow> string option \<Rightarrow> run" where
  "gather jsonParse db jid reviewJob done promptToUse tcId =
     (let rows = reviewResult_findMany db jid;
          done5 = done @ [ReviewResultFindMany jid]
      in case mapE (enrich jsonParse (documentMap (documents reviewJob))) rows of
           Inl e \<Rightarrow> \<lparr>outcome = Inl e, finalDb = db, ops = done5\<rparr>
         | Inr enriched \<Rightarrow>
             (let td = \<lparr>allResults = enriched\<rparr> in
              case tcId of
                None \<Rightarrow> \<lparr>outcome = Inr (prepared promptToUse td None), finalDb = db, ops = done5\<rparr>
              | Some tid \<Rightarrow>
                  if tid = [] then
                    \<lparr>outcome = Inr (prepared promptToUse td None), finalDb = db, ops = done5\<rparr>
                  else
                    (case toolConfigurations db tid of
                       Inl e \<Rightarrow>
                         \<lparr>outcome = Inr (prepared promptToUse td None), finalDb = db,
                          ops = done5 @ [ToolConfigurationFindById tid]\<rparr>
                     | Inr config \<Rightarrow>
                         \<lparr>outcome = Inr (prepared promptToUse td (Some (agentFormat config))),
                          finalDb = db, ops = done5 @ [ToolConfigurationFindById tid]\<rparr>)))"

text \<open>
  \<open>newDate k\<close> is the value of the \<open>k\<close>-th \<open>new Date()\<close> that the run evaluates
  (counted from 0).
\<close>

definition preGenerateNextAction ::
  "(string \<Rightarrow> js_value option) \<Rightarrow> (nat \<Rightarrow> timestamp) \<Rightarrow> database \<Rightarrow> PreGenerateNextActionParams \<Rightarrow> run" where
  "preGenerateNextAction jsonParse newDate db params =
     (let jid = reviewJobId params;
          done1 = [ReviewJobFindUnique jid]
      in case reviewJobs db jid of
           None \<Rightarrow> \<lparr>outcome = Inr (declined ''Review job not found''), finalDb = db, ops = done1\<rparr>
         | Some reviewJob \<Rightarrow>
             if \<not> enableNextAction (checkListSet reviewJob) then
               (let done2 = done1 @ [ReviewJobUpdate jid SKIPPED (newDate 0)] in
                case reviewJob_update jid SKIPPED (newDate 0) db of
                  Inl e \<Rightarrow> \<lparr>outcome = Inl e, finalDb = db, ops = done2\<rparr>
                | Inr db2 \<Rightarrow>
                    \<lparr>outcome = Inr (declined ''Next Action is disabled''), finalDb = db2, ops = done2\<rparr>)
             else
               (let done3 = done1 @ [ReviewJobUpdate jid PROCESSING (newDate 0)] in
                case reviewJob_update jid PROCESSING (newDate 0) db of
                  Inl e \<Rightarrow> \<lparr>outcome = Inl e, finalDb = db, ops = done3\<rparr>
                | Inr db3 \<Rightarrow>
                    (case nextActionTemplateId (checkListSet reviewJob) of
                       None \<Rightarrow> gather jsonParse db3 jid reviewJob done3 DEFAULT_NEXT_ACTION_PROMPT None
                     | Some tplId \<Rightarrow>
                         if tplId = [] then
                           gather jsonParse db3 jid reviewJob done3 DEFAULT_NEXT_ACTION_PROMPT None
                         else
                           (let done4 = done3 @ [PromptTemplateFindUnique tplId] in
                            case promptTemplates db3 tplId of
                              None \<Rightarrow>
                                (let done4f = done4 @ [ReviewJobUpdate jid FAILED (newDate 1)] in
                                 case reviewJob_update jid FAILED (newDate 1) db3 of
                                   Inl e \<Rightarrow> \<lparr>outcome = Inl e, finalDb = db3, ops = done4f\<rparr>
                                 | Inr db4 \<Rightarrow>
                                     \<lparr>outcome = Inr (declined ''Prompt template not found''),
                                      finalDb = db4, ops = done4f\<rparr>)
                            | Some template \<Rightarrow>
                                gather jsonParse db3 jid reviewJob done4 (row_prompt template)
                                  (row_toolConfigurationId template)))))"

text \<open>The writes among the operations of a run, and what they write apart from the time.\<close>

fun isWrite :: "db_op \<Rightarrow> bool" where
  "isWrite (ReviewJobUpdate jid st t) = True"
| "isWrite op = False"

definition writes :: "run \<Rightarrow> db_op list" where
  "writes r = filter isWrite (ops r)"

fun statusWritten :: "db_op \<Rightarrow> (string \<times> next_action_status) list" where
  "statusWritten (ReviewJobUpdate jid st t) = [(jid, st)]"
| "statusWritten op = []"

definition statusWrites :: "run \<Rightarrow> (string \<times> next_action_status) list" where
  "statusWrites r = concat (map statusWritten (ops r))"

text \<open>An operation with the time it carries set aside.\<close>

fun withoutTime :: "db_op \<Rightarrow> db_op" where
  "withoutTime (ReviewJobUpdate jid st t) = ReviewJobUpdate jid st 0"
| "withoutTime op = op"

section \<open>The prompt template editor\<close>

datatype PromptTemplateType = CHECKLIST | REVIEW | NEXT_ACTION

text \<open>A value that may be \<open>undefined\<close> or \<open>null\<close>.\<close>

datatype 'a nullable = Undefined | Null | Value 'a

record UpdatePromptTemplateRequest =
  req_name :: string
  req_description :: string
  req_prompt :: string
  req_toolConfigurationId :: "string nullable"

text \<open>The state variables of the component that \<open>handleSubmit\<close> reads or sets.\<close>

record editor =
  ed_name :: string
  ed_description :: string
  ed_prompt :: string
  ed_toolConfigurationId :: "string nullable"
  isDirty :: bool

text \<open>The fields of the \<open>template\<close> prop that the component copies into its state.\<close>

record PromptTemplate =
  tpl_name :: string
  tpl_description :: "string nullable"
  tpl_prompt :: string
  tpl_toolConfigurationId :: "string nullable"

text \<open>
  The effect that runs when a \<open>template\<close> is given: \<open>setName(template.name)\<close>,
  \<open>setDescription(template.description || "")\<close>, \<open>setPrompt(template.prompt)\<close>,
  \<open>setToolConfigurationId(template.toolConfigurationId)\<close>, \<open>setIsDirty(false)\<close>.
  The tool configuration id is copied as it is.
\<close>

definition syncTemplate :: "PromptTemplate \<Rightarrow> editor \<Rightarrow> editor" where
  "syncTemplate template st =
     st\<lparr>ed_name := tpl_name template,
        ed_description := (case tpl_description template of Value d \<Rightarrow> d | _ \<Rightarrow> []),
        ed_prompt := tpl_prompt template,
        ed_toolConfigurationId := tpl_toolConfigurationId template,
        isDirty := False\<rparr>"

text \<open>
  The option that the tool configuration select shows:
  \<open>value={toolConfigurationId || ""}\<close>, where the option with value \<open>""\<close> is
  "no tool configuration".
\<close>

definition selectValue :: "editor \<Rightarrow> string" where
  "selectValue st = (case ed_toolConfigurationId st of Value i \<Rightarrow> i | _ \<Rightarrow> [])"

text \<open>
  The \<open>onChange\<close> of the tool configuration select:
  \<open>setToolConfigurationId(e.target.value || undefined)\<close>, then \<open>handleChange()\<close>.
\<close>

definition selectToolConfiguration :: "string \<Rightarrow> editor \<Rightarrow> editor" where
  "selectToolConfiguration v st =
     st\<lparr>ed_toolConfigurationId := (if v \<noteq> [] then Value v else Undefined), isDirty := True\<rparr>"

text \<open>
  \<open>handleSubmit\<close>: the request handed to \<open>onSave\<close>, and the state afterwards.
  \<open>onSave\<close> tells whether the promise it returns resolves; \<open>setIsDirty(false)\<close>
  runs only then.
\<close>

definition handleSubmit ::
  "PromptTemplateType \<Rightarrow> (UpdatePromptTemplateRequest \<Rightarrow> bool) \<Rightarrow> editor
     \<Rightarrow> UpdatePromptTemplateRequest \<times> editor" where
  "handleSubmit ty onSave st =
     (let data =
        \<lparr>req_name = ed_name st,
         req_description = ed_description st,
         req_prompt = ed_prompt st,
         req_toolConfigurationId =
           (if ty = NEXT_ACTION
            then (case ed_toolConfigurationId st of
                    Undefined \<Rightarrow> Null
                  | Null \<Rightarrow> Null
                  | Value i \<Rightarrow> Value i)
            else Undefined)\<rparr>
      in (data, if onSave data then st\<lparr>isDirty := False\<rparr> else st))"

section \<open>Concrete databases\<close>

definition exampleJob :: "bool \<Rightarrow> string option \<Rightarrow> review_job" where
  "exampleJob enabled tplId =
     \<lparr>checkListSet = \<lparr>enableNextAction = enabled, nextActionTemplateId = tplId\<rparr>,
      documents = [\<lparr>doc_id = ''d1'', doc_filename = ''a.pdf''\<rparr>],
      nextActionStatus = None, updatedAt = 0\<rparr>"

definition exampleRow :: review_result_row where
  "exampleRow =
     \<lparr>checkList = \<lparr>cl_id = ''c1'', cl_name = ''Signature'', cl_description = None,
                    cl_parent = Some \<lparr>parent_name = ''Contract''\<rparr>\<rparr>,
      result = Some ''fail'', userOverride = False, explanation = Some ''missing'',
      extractedText = None, confidenceScore = Some (9 / 10), userComment = None,
      sourceReferences = JArr [JObj [(''documentId'', JStr ''d1''), (''pageNumber'', JNum 3)]],
      jobId = ''j1''\<rparr>"

definition exampleTemplate :: prompt_template_row where
  "exampleTemplate = \<lparr>row_prompt = ''custom'', row_toolConfigurationId = Some ''t1''\<rparr>"

text \<open>
  One job \<open>j1\<close>, one review result, the templates given, and a repository whose
  \<open>findById\<close> throws for every id.
\<close>

definition exampleDb :: "review_job \<Rightarrow> (string \<rightharpoonup> prompt_template_row) \<Rightarrow> database" where
  "exampleDb job templates =
     \<lparr>reviewJobs = [''j1'' \<mapsto> job], promptTemplates = templates,
      reviewResults = [exampleRow],
      toolConfigurations = (\<lambda>tid. Inl (RepositoryError ''not found''))\<rparr>"

definition exampleParams :: PreGenerateNextActionParams where
  "exampleParams = \<lparr>reviewJobId = ''j1'', userId = None\<rparr>"

text \<open>
  Two stand-ins for \<open>JSON.parse\<close>, for runs in which no string is parsed, or only
  the text \<open>[7]\<close> and texts that are no JSON.
\<close>

definition noJson :: "string \<Rightarrow> js_value option" where
  "noJson s = None"

definition sevenJson :: "string \<Rightarrow> js_value option" where
  "sevenJson s = (if s = ''[7]'' then Some (JArr [JNum 7]) else None)"

text \<open>
  A stored template whose tool configuration id is the empty string, and the state
  of a freshly opened editor.
\<close>

definition emptyIdTemplate :: PromptTemplate where
  "emptyIdTemplate =
     \<lparr>tpl_name = ''n'', tpl_description = Null, tpl_prompt = ''p'',
      tpl_toolConfigurationId = Value []\<rparr>"

definition blankEditor :: editor where
  "blankEditor =
     \<lparr>ed_name = [], ed_description = [], ed_prompt = [],
      ed_toolConfigurationId = Undefined, isDirty = False\<rparr>"

definition midnight :: "nat \<Rightarrow> timestamp" where
  "midnight k = 0"

definition ticking :: "nat \<Rightarrow> timestamp" where
  "ticking k = 1 + int k"

section \<open>Facts about the building blocks\<close>

lemma mapE_length: "mapE f xs = Inr ys \<Longrightarrow> length ys = length xs"
  by (induction xs arbitrary: ys) (auto split: sum.splits)

lemma mapE_nth: "mapE f xs = Inr ys \<Longrightarrow> i < length xs \<Longrightarrow> f (xs ! i) = Inr (ys ! i)"
proof (induction xs arbitrary: ys i)
  case Nil
  then show ?case by simp
next
  case (Cons x xs)
  then obtain y ys' where fx: "f x = Inr y" and rest: "mapE f xs = Inr ys'" and ys: "ys = y # ys'"
    by (auto split: sum.splits)
  show ?case
  proof (cases i)
    case 0
    with fx ys show ?thesis by simp
  next
    case (Suc j)
    with Cons.prems have "j < length xs" by simp
    with Cons.IH [OF rest] have "f (xs ! j) = Inr (ys' ! j)" by simp
    with Suc ys show ?thesis by simp
  qed
qed

lemma mapE_defined:
  "(\<And>x. x \<in> set xs \<Longrightarrow> \<exists>y. f x = Inr y) \<Longrightarrow> \<exists>ys. mapE f xs = Inr ys"
proof (induction xs)
  case Nil
  show ?case by simp
next
  case (Cons x xs)
  from Cons.prems [of x] obtain y where "f x = Inr y" by auto
  moreover from Cons.IH Cons.prems obtain ys where "mapE f xs = Inr ys" by auto
  ultimately show ?case by simp
qed

lemma resolveRef_fields:
  assumes "resolveRef dm ref = Inr sr"
  shows "\<exists>documentId pn.
           getProperty ref ''documentId'' = Inr documentId \<and>
           getProperty ref ''pageNumber'' = Inr pn \<and>
           filename sr =
             (case documentId of
                JStr k \<Rightarrow>
                  (case dm k of
                     None \<Rightarrow> ''Unknown''
                   | Some f \<Rightarrow> if k \<noteq> [] \<and> f \<noteq> [] then f else ''Unknown'')
              | _ \<Rightarrow> ''Unknown'') \<and>
           pageNumber sr = (if pn = JUndefined \<or> pn = JNull then JNull else pn)"
proof -
  from assms obtain documentId pn
    where d: "getProperty ref ''documentId'' = Inr documentId"
      and p: "getProperty ref ''pageNumber'' = Inr pn"
    by (auto simp add: resolveRef_def split: sum.splits)
  from assms d p have "filename sr =
             (case documentId of
                JStr k \<Rightarrow>
                  (case dm k of
                     None \<Rightarrow> ''Unknown''
                   | Some f \<Rightarrow> if k \<noteq> [] \<and> f \<noteq> [] then f else ''Unknown'')
              | _ \<Rightarrow> ''Unknown'')"
    by (cases documentId) (auto simp add: resolveRef_def split: option.splits)
  moreover from assms d p
  have "pageNumber sr = (if pn = JUndefined \<or> pn = JNull then JNull else pn)"
    by (auto simp add: resolveRef_def nullish_def)
  ultimately show ?thesis using d p by simp
qed

lemma resolveRef_defined:
  "ref \<noteq> JNull \<Longrightarrow> ref \<noteq> JUndefined \<Longrightarrow> \<exists>sr. resolveRef dm ref = Inr sr"
  by (cases ref) (simp_all add: resolveRef_def)


lemma reviewJob_update_found:
  "reviewJobs db jid = Some job \<Longrightarrow>
   reviewJob_update jid st t db =
     Inr (db\<lparr>reviewJobs := (reviewJobs db)(jid \<mapsto> job\<lparr>nextActionStatus := Some st, updatedAt := t\<rparr>)\<rparr>)"
  by (simp add: reviewJob_update_def)

text \<open>Steps 5 to 7 write nothing and read nothing of the review-job table.\<close>

lemma gather_finalDb: "finalDb (gather jp db jid job done p tc) = db"
  by (simp add: gather_def Let_def split: sum.splits option.splits)

lemma gather_ops:
  "ops (gather jp db jid job (x # xs) p tc) = (x # xs) @ ops (gather jp db jid job [] p tc)"
  by (simp add: gather_def Let_def split: sum.splits option.splits)

lemma gather_writes:
  "filter isWrite (ops (gather jp db jid job done p tc)) = filter isWrite done"
  by (simp add: gather_def Let_def split: sum.splits option.splits)

lemma gather_statusWrites:
  "concat (map statusWritten (ops (gather jp db jid job done p tc))) =
   concat (map statusWritten done)"
  by (simp add: gather_def Let_def split: sum.splits option.splits)

lemma gather_ops_cons:
  "ops (gather jp db jid job (x # xs) p tc) =
   (x # xs) @ ReviewResultFindMany jid # tl (ops (gather jp db jid job [] p tc))"
  by (simp add: gather_def Let_def split: sum.splits option.splits)

lemma gather_jobs_outcome:
  "outcome (gather jp (db\<lparr>reviewJobs := m\<rparr>) jid job done p tc) = outcome (gather jp db jid job done p tc)"
  by (simp add: gather_def Let_def reviewResult_findMany_def split: sum.splits option.splits)

lemma gather_done_outcome:
  "outcome (gather jp db jid job (x # xs) p tc) = outcome (gather jp db jid job [] p tc)"
  by (simp add: gather_def Let_def split: sum.splits option.splits)

lemma gather_jobs_ops:
  "ops (gather jp (db\<lparr>reviewJobs := m\<rparr>) jid job done p tc) = ops (gather jp db jid job done p tc)"
  by (simp add: gather_def Let_def reviewResult_findMany_def split: sum.splits option.splits)

lemma gather_outcome:
  "outcome (gather jp db jid job done p tc) = Inr res \<Longrightarrow>
   \<exists>enriched c.
     mapE (enrich jp (documentMap (documents job))) (reviewResult_findMany db jid) = Inr enriched \<and>
     res = prepared p \<lparr>allResults = enriched\<rparr> c"
  by (auto simp add: gather_def Let_def split: sum.splits option.splits if_splits)

lemma gather_lookup:
  assumes "ToolConfigurationFindById tid \<in> set (ops (gather jp db jid job [] p tc))"
  shows "tc = Some tid \<and> tid \<noteq> [] \<and>
         (\<exists>enriched.
            outcome (gather jp db jid job done p tc) =
              Inr (prepared p \<lparr>allResults = enriched\<rparr>
                    (case toolConfigurations db tid of Inl e \<Rightarrow> None | Inr c \<Rightarrow> Some (agentFormat c))))"
  using assms
  by (auto simp add: gather_def Let_def split: sum.splits option.splits if_splits)

text \<open>The run of the handler, by the first two decisions it takes.\<close>

lemma run_missing:
  assumes "reviewJobs db (reviewJobId params) = None"
  shows "preGenerateNextAction jsonParse newDate db params =
     \<lparr>outcome = Inr (declined ''Review job not found''), finalDb = db,
      ops = [ReviewJobFindUnique (reviewJobId params)]\<rparr>"
  using assms by (simp add: preGenerateNextAction_def)

lemma run_disabled:
  assumes "reviewJobs db (reviewJobId params) = Some job" "\<not> enableNextAction (checkListSet job)"
  shows "preGenerateNextAction jsonParse newDate db params =
     \<lparr>outcome = Inr (declined ''Next Action is disabled''),
      finalDb = db\<lparr>reviewJobs := (reviewJobs db)(reviewJobId params \<mapsto>
                   job\<lparr>nextActionStatus := Some SKIPPED, updatedAt := newDate 0\<rparr>)\<rparr>,
      ops = [ReviewJobFindUnique (reviewJobId params),
             ReviewJobUpdate (reviewJobId params) SKIPPED (newDate 0)]\<rparr>"
  using assms by (simp add: preGenerateNextAction_def reviewJob_update_found Let_def)

lemma run_enabled:
  assumes "reviewJobs db (reviewJobId params) = Some job" "enableNextAction (checkListSet job)"
  shows "preGenerateNextAction jsonParse newDate db params =
     (let jid = reviewJobId params;
          db3 = db\<lparr>reviewJobs := (reviewJobs db)(jid \<mapsto>
                   job\<lparr>nextActionStatus := Some PROCESSING, updatedAt := newDate 0\<rparr>)\<rparr>;
          done3 = [ReviewJobFindUnique jid, ReviewJobUpdate jid PROCESSING (newDate 0)]
      in case nextActionTemplateId (checkListSet job) of
           None \<Rightarrow> gather jsonParse db3 jid job done3 DEFAULT_NEXT_ACTION_PROMPT None
         | Some tplId \<Rightarrow>
             if tplId = [] then gather jsonParse db3 jid job done3 DEFAULT_NEXT_ACTION_PROMPT None
             else (case promptTemplates db tplId of
                     None \<Rightarrow>
                       \<lparr>outcome = Inr (declined ''Prompt template not found''),
                        finalDb = db\<lparr>reviewJobs := (reviewJobs db)(jid \<mapsto>
                                     job\<lparr>nextActionStatus := Some FAILED, updatedAt := newDate 1\<rparr>)\<rparr>,
                        ops = done3 @ [PromptTemplateFindUnique tplId, ReviewJobUpdate jid FAILED (newDate 1)]\<rparr>
                   | Some template \<Rightarrow>
                       gather jsonParse db3 jid job (done3 @ [PromptTemplateFindUnique tplId])
                         (row_prompt template) (row_toolConfigurationId template)))"
  using assms
  by (simp add: preGenerateNextAction_def reviewJob_update_def Let_def split: option.splits)

text \<open>Unfolding the model on a concrete input.\<close>

lemmas example_defs =
  exampleJob_def exampleRow_def exampleTemplate_def exampleDb_def exampleParams_def
  noJson_def midnight_def ticking_def

lemmas run_defs =
  preGenerateNextAction_def gather_def reviewJob_update_def reviewResult_findMany_def
  enrich_def resolveSourceReferences_def parsedRefs_def resolveRef_def documentMap_def
  nullish_def declined_def prepared_def agentFormat_def Let_def

section \<open>The feature flag\<close>

text \<open>
  C1. For an existing review job, the run returns
  \<open>{ shouldGenerate: false, message: "Next Action is disabled" }\<close> exactly when the
  flag \<open>checkListSet.enableNextAction\<close> is false, and it writes
  \<open>nextActionStatus = SKIPPED\<close> to the job exactly then, as its only write, leaving
  the job with that status. When the
  flag is true, the write that follows the lookup of the job is
  \<open>nextActionStatus = PROCESSING\<close>, and the run goes on to a further database
  operation.
\<close>

theorem C1_flag_decides_skip:
  assumes "reviewJobs db (reviewJobId params) = Some job"
  shows "(outcome (preGenerateNextAction jsonParse newDate db params) =
            Inr \<lparr>shouldGenerate = False, promptTemplate = None, templateData = None,
                 toolConfiguration = None, message = Some ''Next Action is disabled''\<rparr>
          \<longleftrightarrow> \<not> enableNextAction (checkListSet job))
       \<and> (writes (preGenerateNextAction jsonParse newDate db params) =
            [ReviewJobUpdate (reviewJobId params) SKIPPED (newDate 0)]
          \<longleftrightarrow> \<not> enableNextAction (checkListSet job))
       \<and> ((reviewJobId params, SKIPPED) \<in> set (statusWrites (preGenerateNextAction jsonParse newDate db params))
          \<longleftrightarrow> \<not> enableNextAction (checkListSet job))
       \<and> (map_option nextActionStatus
            (reviewJobs (finalDb (preGenerateNextAction jsonParse newDate db params)) (reviewJobId params))
            = Some (Some SKIPPED)
          \<longleftrightarrow> \<not> enableNextAction (checkListSet job))
       \<and> (enableNextAction (checkListSet job) \<longrightarrow>
            (\<exists>next rest. ops (preGenerateNextAction jsonParse newDate db params) =
               [ReviewJobFindUnique (reviewJobId params),
                ReviewJobUpdate (reviewJobId params) PROCESSING (newDate 0)] @ next # rest))"
proof (cases "enableNextAction (checkListSet job)")
  case False
  from run_disabled [OF assms False, of jsonParse newDate]
  show ?thesis using False
    by (simp add: writes_def statusWrites_def declined_def)
next
  case True
  let ?r = "preGenerateNextAction jsonParse newDate db params"
  let ?jid = "reviewJobId params"
  let ?done3 = "[ReviewJobFindUnique ?jid, ReviewJobUpdate ?jid PROCESSING (newDate 0)]"
  note run = run_enabled [OF assms True, of jsonParse newDate]
  have out: "outcome ?r \<noteq> Inr (declined ''Next Action is disabled'')"
    using run
    by (auto simp add: Let_def declined_def prepared_def split: option.splits if_splits
             dest!: gather_outcome)
  have "statusWrites ?r = [(?jid, PROCESSING)] \<or>
        statusWrites ?r = [(?jid, PROCESSING), (?jid, FAILED)]"
    unfolding statusWrites_def run
    by (simp add: Let_def gather_statusWrites split: option.splits)
  then have st: "(?jid, SKIPPED) \<notin> set (statusWrites ?r)"
    by auto
  have "writes ?r = [ReviewJobUpdate ?jid PROCESSING (newDate 0)] \<or>
        writes ?r = [ReviewJobUpdate ?jid PROCESSING (newDate 0), ReviewJobUpdate ?jid FAILED (newDate 1)]"
    unfolding writes_def run
    by (simp add: Let_def gather_writes split: option.splits)
  then have wr: "writes ?r \<noteq> [ReviewJobUpdate ?jid SKIPPED (newDate 0)]"
    by auto
  have fin: "map_option nextActionStatus (reviewJobs (finalDb ?r) ?jid) \<noteq> Some (Some SKIPPED)"
    unfolding run
    by (simp add: Let_def gather_finalDb split: option.splits)
  have nx: "\<exists>next rest. ops ?r = ?done3 @ next # rest"
    unfolding run
    by (simp add: Let_def gather_ops_cons split: option.splits)
  from out st wr fin nx True show ?thesis
    by (auto simp add: declined_def)
qed

theorem C1_flag_decides_skip_witness:
  "reviewJobs (exampleDb (exampleJob False None) Map.empty) (reviewJobId exampleParams)
     = Some (exampleJob False None)
   \<and> outcome (preGenerateNextAction noJson midnight (exampleDb (exampleJob False None) Map.empty) exampleParams) =
       Inr \<lparr>shouldGenerate = False, promptTemplate = None, templateData = None,
            toolConfiguration = None, message = Some ''Next Action is disabled''\<rparr>
   \<and> writes (preGenerateNextAction noJson midnight (exampleDb (exampleJob False None) Map.empty) exampleParams) =
       [ReviewJobUpdate ''j1'' SKIPPED 0]
   \<and> \<not> enableNextAction (checkListSet (exampleJob False None))"
proof -
  have job: "reviewJobs (exampleDb (exampleJob False None) Map.empty) (reviewJobId exampleParams)
               = Some (exampleJob False None)"
    by (simp add: example_defs)
  have off: "\<not> enableNextAction (checkListSet (exampleJob False None))"
    by (simp add: example_defs)
  from C1_flag_decides_skip [OF job, of noJson midnight] off job show ?thesis
    by (simp add: exampleParams_def midnight_def)
qed

section \<open>The review job is missing\<close>

text \<open>
  C3. When no review job has the id \<open>reviewJobId\<close>, the run returns
  \<open>{ shouldGenerate: false, message: "Review job not found" }\<close>, its only database
  operation is the lookup of the job, it writes nothing, and the database is
  unchanged.
\<close>

theorem C3_missing_job_no_write:
  assumes "reviewJobs db (reviewJobId params) = None"
  shows "outcome (preGenerateNextAction jsonParse newDate db params) =
           Inr \<lparr>shouldGenerate = False, promptTemplate = None, templateData = None,
                toolConfiguration = None, message = Some ''Review job not found''\<rparr>
       \<and> ops (preGenerateNextAction jsonParse newDate db params) =
           [ReviewJobFindUnique (reviewJobId params)]
       \<and> writes (preGenerateNextAction jsonParse newDate db params) = []
       \<and> finalDb (preGenerateNextAction jsonParse newDate db params) = db"
  using assms by (simp add: preGenerateNextAction_def writes_def declined_def)

theorem C3_missing_job_no_write_witness:
  "reviewJobs (exampleDb (exampleJob True None) Map.empty) ''j2'' = None
   \<and> outcome (preGenerateNextAction noJson midnight (exampleDb (exampleJob True None) Map.empty)
        \<lparr>reviewJobId = ''j2'', userId = None\<rparr>) =
       Inr \<lparr>shouldGenerate = False, promptTemplate = None, templateData = None,
            toolConfiguration = None, message = Some ''Review job not found''\<rparr>
   \<and> writes (preGenerateNextAction noJson midnight (exampleDb (exampleJob True None) Map.empty)
        \<lparr>reviewJobId = ''j2'', userId = None\<rparr>) = []
   \<and> finalDb (preGenerateNextAction noJson midnight (exampleDb (exampleJob True None) Map.empty)
        \<lparr>reviewJobId = ''j2'', userId = None\<rparr>) = exampleDb (exampleJob True None) Map.empty"
proof -
  have none: "reviewJobs (exampleDb (exampleJob True None) Map.empty)
                (reviewJobId \<lparr>reviewJobId = ''j2'', userId = None\<rparr>) = None"
    by (simp add: example_defs)
  from C3_missing_job_no_write [OF none, of noJson midnight] none show ?thesis
    by simp
qed

section \<open>The prompt template\<close>

text \<open>
  C2, as the specification states it, fails where \<open>nextActionTemplateId\<close> is the empty
  string: the guard \<open>if (nextActionTemplateId)\<close> takes the empty string for "not
  specified". The job below has the flag on and the non-null template id \<open>""\<close>, no
  template has that id, and the run neither writes FAILED nor returns
  "Prompt template not found": it uses the default prompt and returns
  \<open>shouldGenerate = true\<close>.
\<close>

theorem C2_empty_template_id_counterexample:
  "reviewJobs (exampleDb (exampleJob True (Some [])) Map.empty) (reviewJobId exampleParams)
     = Some (exampleJob True (Some []))
   \<and> enableNextAction (checkListSet (exampleJob True (Some [])))
   \<and> nextActionTemplateId (checkListSet (exampleJob True (Some []))) = Some []
   \<and> promptTemplates (exampleDb (exampleJob True (Some [])) Map.empty) [] = None
   \<and> outcome (preGenerateNextAction noJson midnight (exampleDb (exampleJob True (Some [])) Map.empty) exampleParams)
       = Inr \<lparr>shouldGenerate = True,
              promptTemplate = Some \<lparr>prompt = DEFAULT_NEXT_ACTION_PROMPT\<rparr>,
              templateData = Some \<lparr>allResults =
                [\<lparr>checkList = \<lparr>name = ''Signature'', description = None, parentName = Some ''Contract''\<rparr>,
                  result = Some ''fail'', userOverride = False, explanation = Some ''missing'',
                  extractedText = None, confidenceScore = Some (9 / 10), userComment = None,
                  sourceReferences = [\<lparr>filename = ''a.pdf'', pageNumber = JNum 3\<rparr>]\<rparr>]\<rparr>,
              toolConfiguration = None, message = None\<rparr>
   \<and> statusWrites (preGenerateNextAction noJson midnight (exampleDb (exampleJob True (Some [])) Map.empty) exampleParams)
       = [(''j1'', PROCESSING)]"
  by (simp add: example_defs run_defs statusWrites_def)

text \<open>
  C2, amended. For an existing review job with the flag on and a
  \<open>nextActionTemplateId\<close> that is neither null nor the empty string, if no prompt
  template has that id then the run returns
  \<open>{ shouldGenerate: false, message: "Prompt template not found" }\<close> with no
  \<open>promptTemplate\<close>, \<open>templateData\<close> or \<open>toolConfiguration\<close>, its writes are
  PROCESSING and then FAILED, and the job is left with \<open>nextActionStatus = FAILED\<close>.
\<close>

theorem C2_template_not_found:
  assumes "reviewJobs db (reviewJobId params) = Some job"
    and "enableNextAction (checkListSet job)"
    and "nextActionTemplateId (checkListSet job) = Some tplId"
    and "tplId \<noteq> []"
    and "promptTemplates db tplId = None"
  shows "outcome (preGenerateNextAction jsonParse newDate db params) =
           Inr \<lparr>shouldGenerate = False, promptTemplate = None, templateData = None,
                toolConfiguration = None, message = Some ''Prompt template not found''\<rparr>
       \<and> writes (preGenerateNextAction jsonParse newDate db params) =
           [ReviewJobUpdate (reviewJobId params) PROCESSING (newDate 0),
            ReviewJobUpdate (reviewJobId params) FAILED (newDate 1)]
       \<and> map_option nextActionStatus
            (reviewJobs (finalDb (preGenerateNextAction jsonParse newDate db params)) (reviewJobId params))
           = Some (Some FAILED)"
  using run_enabled [OF assms(1,2), of jsonParse newDate] assms(3-5)
  by (simp add: Let_def declined_def writes_def)

theorem C2_template_not_found_witness:
  "reviewJobs (exampleDb (exampleJob True (Some ''t9'')) Map.empty) (reviewJobId exampleParams)
     = Some (exampleJob True (Some ''t9''))
   \<and> promptTemplates (exampleDb (exampleJob True (Some ''t9'')) Map.empty) ''t9'' = None
   \<and> outcome (preGenerateNextAction noJson ticking (exampleDb (exampleJob True (Some ''t9'')) Map.empty) exampleParams) =
       Inr \<lparr>shouldGenerate = False, promptTemplate = None, templateData = None,
            toolConfiguration = None, message = Some ''Prompt template not found''\<rparr>
   \<and> writes (preGenerateNextAction noJson ticking (exampleDb (exampleJob True (Some ''t9'')) Map.empty) exampleParams) =
       [ReviewJobUpdate ''j1'' PROCESSING 1, ReviewJobUpdate ''j1'' FAILED 2]"
proof -
  have job: "reviewJobs (exampleDb (exampleJob True (Some ''t9'')) Map.empty) (reviewJobId exampleParams)
               = Some (exampleJob True (Some ''t9''))"
    by (simp add: example_defs)
  have on: "enableNextAction (checkListSet (exampleJob True (Some ''t9'')))"
    by (simp add: example_defs)
  have tid: "nextActionTemplateId (checkListSet (exampleJob True (Some ''t9''))) = Some ''t9''"
    by (simp add: example_defs)
  have ne: "''t9'' \<noteq> []" by simp
  have none: "promptTemplates (exampleDb (exampleJob True (Some ''t9'')) Map.empty) ''t9'' = None"
    by (simp add: example_defs)
  from C2_template_not_found [OF job on tid ne none, of noJson ticking] job none show ?thesis
    by (simp add: exampleParams_def ticking_def)
qed

text \<open>
  C4, as the specification states it, fails at the same guard: a template id that is
  the empty string is non-null and here names a stored template, and the run returns
  the default prompt, not the stored one.
\<close>

theorem C4_empty_template_id_counterexample:
  "nextActionTemplateId (checkListSet (exampleJob True (Some []))) = Some []
   \<and> promptTemplates (exampleDb (exampleJob True (Some [])) [[] \<mapsto> exampleTemplate]) [] = Some exampleTemplate
   \<and> row_prompt exampleTemplate = ''custom''
   \<and> map_sum id (\<lambda>res. (shouldGenerate res, promptTemplate res))
        (outcome (preGenerateNextAction noJson midnight
           (exampleDb (exampleJob True (Some [])) [[] \<mapsto> exampleTemplate]) exampleParams))
       = Inr (True, Some \<lparr>prompt = DEFAULT_NEXT_ACTION_PROMPT\<rparr>)
   \<and> DEFAULT_NEXT_ACTION_PROMPT \<noteq> ''custom''"
proof -
  have "DEFAULT_NEXT_ACTION_PROMPT \<noteq> ''custom''"
    by (simp add: DEFAULT_NEXT_ACTION_PROMPT_def)
  then show ?thesis
    by (simp add: example_defs run_defs)
qed

text \<open>
  C4, amended. On every run that returns \<open>shouldGenerate = true\<close>, the job exists and
  the returned \<open>promptTemplate.prompt\<close> is the built-in default prompt when the job's
  \<open>nextActionTemplateId\<close> is null or the empty string, and otherwise the template with
  that id exists and the returned prompt is its stored prompt.
\<close>

theorem C4_prompt_choice:
  assumes "outcome (preGenerateNextAction jsonParse newDate db params) = Inr res"
    and "shouldGenerate res"
  shows "\<exists>job. reviewJobs db (reviewJobId params) = Some job \<and>
           (case nextActionTemplateId (checkListSet job) of
              None \<Rightarrow> promptTemplate res = Some \<lparr>prompt = DEFAULT_NEXT_ACTION_PROMPT\<rparr>
            | Some tplId \<Rightarrow>
                if tplId = [] then promptTemplate res = Some \<lparr>prompt = DEFAULT_NEXT_ACTION_PROMPT\<rparr>
                else \<exists>template. promptTemplates db tplId = Some template \<and>
                       promptTemplate res = Some \<lparr>prompt = row_prompt template\<rparr>)"
proof (cases "reviewJobs db (reviewJobId params)")
  case None
  from run_missing [OF None, of jsonParse newDate] assms show ?thesis
    by (auto simp add: declined_def)
next
  case (Some job)
  show ?thesis
  proof (cases "enableNextAction (checkListSet job)")
    case False
    from run_disabled [OF Some False, of jsonParse newDate] assms show ?thesis
      by (auto simp add: declined_def)
  next
    case True
    from run_enabled [OF Some True, of jsonParse newDate] assms Some show ?thesis
      by (auto simp add: Let_def declined_def prepared_def split: option.splits if_splits
               dest!: gather_outcome)
  qed
qed

theorem C4_prompt_choice_witness:
  "outcome (preGenerateNextAction noJson midnight
      (exampleDb (exampleJob True (Some ''t1'')) [''t1'' \<mapsto> exampleTemplate]) exampleParams)
     = Inr (prepared ''custom''
             \<lparr>allResults =
                [\<lparr>checkList = \<lparr>name = ''Signature'', description = None, parentName = Some ''Contract''\<rparr>,
                  result = Some ''fail'', userOverride = False, explanation = Some ''missing'',
                  extractedText = None, confidenceScore = Some (9 / 10), userComment = None,
                  sourceReferences = [\<lparr>filename = ''a.pdf'', pageNumber = JNum 3\<rparr>]\<rparr>]\<rparr> None)
   \<and> shouldGenerate (prepared ''custom''
             \<lparr>allResults =
                [\<lparr>checkList = \<lparr>name = ''Signature'', description = None, parentName = Some ''Contract''\<rparr>,
                  result = Some ''fail'', userOverride = False, explanation = Some ''missing'',
                  extractedText = None, confidenceScore = Some (9 / 10), userComment = None,
                  sourceReferences = [\<lparr>filename = ''a.pdf'', pageNumber = JNum 3\<rparr>]\<rparr>]\<rparr> None)
   \<and> (\<exists>job. reviewJobs (exampleDb (exampleJob True (Some ''t1'')) [''t1'' \<mapsto> exampleTemplate]) ''j1'' = Some job \<and>
         nextActionTemplateId (checkListSet job) = Some ''t1'' \<and>
         promptTemplates (exampleDb (exampleJob True (Some ''t1'')) [''t1'' \<mapsto> exampleTemplate]) ''t1''
           = Some exampleTemplate \<and>
         promptTemplate (prepared ''custom''
             \<lparr>allResults =
                [\<lparr>checkList = \<lparr>name = ''Signature'', description = None, parentName = Some ''Contract''\<rparr>,
                  result = Some ''fail'', userOverride = False, explanation = Some ''missing'',
                  extractedText = None, confidenceScore = Some (9 / 10), userComment = None,
                  sourceReferences = [\<lparr>filename = ''a.pdf'', pageNumber = JNum 3\<rparr>]\<rparr>]\<rparr> None)
           = Some \<lparr>prompt = row_prompt exampleTemplate\<rparr>)"
proof -
  let ?db = "exampleDb (exampleJob True (Some ''t1'')) [''t1'' \<mapsto> exampleTemplate]"
  let ?res = "prepared ''custom''
             \<lparr>allResults =
                [\<lparr>checkList = \<lparr>name = ''Signature'', description = None, parentName = Some ''Contract''\<rparr>,
                  result = Some ''fail'', userOverride = False, explanation = Some ''missing'',
                  extractedText = None, confidenceScore = Some (9 / 10), userComment = None,
                  sourceReferences = [\<lparr>filename = ''a.pdf'', pageNumber = JNum 3\<rparr>]\<rparr>]\<rparr> None"
  have out: "outcome (preGenerateNextAction noJson midnight ?db exampleParams) = Inr ?res"
    by (simp add: example_defs run_defs)
  have gen: "shouldGenerate ?res"
    by (simp add: prepared_def)
  from C4_prompt_choice [OF out gen] out gen show ?thesis
    by (auto simp add: example_defs split: option.splits if_splits)
qed

section \<open>The tool configuration\<close>

text \<open>
  C5. In every run that looks a tool configuration up (the id \<open>tid\<close> taken from the
  template) and whose lookup throws, the run still returns \<open>shouldGenerate = true\<close>
  with \<open>promptTemplate\<close> (the template's prompt) and \<open>templateData\<close> present and
  \<open>toolConfiguration\<close> undefined. The only status the run writes is PROCESSING, and
  that is the status the job is left with.
\<close>

theorem C5_lookup_failure_tolerated:
  assumes "ToolConfigurationFindById tid \<in> set (ops (preGenerateNextAction jsonParse newDate db params))"
    and "toolConfigurations db tid = Inl e"
  shows "\<exists>job tplId template enriched.
           reviewJobs db (reviewJobId params) = Some job \<and>
           nextActionTemplateId (checkListSet job) = Some tplId \<and>
           promptTemplates db tplId = Some template \<and>
           row_toolConfigurationId template = Some tid \<and>
           outcome (preGenerateNextAction jsonParse newDate db params) =
             Inr \<lparr>shouldGenerate = True,
                  promptTemplate = Some \<lparr>prompt = row_prompt template\<rparr>,
                  templateData = Some \<lparr>allResults = enriched\<rparr>,
                  toolConfiguration = None, message = None\<rparr> \<and>
           statusWrites (preGenerateNextAction jsonParse newDate db params) =
             [(reviewJobId params, PROCESSING)] \<and>
           map_option nextActionStatus
             (reviewJobs (finalDb (preGenerateNextAction jsonParse newDate db params)) (reviewJobId params))
             = Some (Some PROCESSING)"
proof (cases "reviewJobs db (reviewJobId params)")
  case None
  from run_missing [OF None, of jsonParse newDate] assms show ?thesis
    by simp
next
  case (Some job)
  show ?thesis
  proof (cases "enableNextAction (checkListSet job)")
    case False
    from run_disabled [OF Some False, of jsonParse newDate] assms show ?thesis
      by simp
  next
    case True
    let ?jid = "reviewJobId params"
    let ?db3 = "db\<lparr>reviewJobs := (reviewJobs db)(?jid \<mapsto>
                   job\<lparr>nextActionStatus := Some PROCESSING, updatedAt := newDate 0\<rparr>)\<rparr>"
    let ?done3 = "[ReviewJobFindUnique ?jid, ReviewJobUpdate ?jid PROCESSING (newDate 0)]"
    note run = run_enabled [OF Some True, of jsonParse newDate, unfolded Let_def]
    have unset: "ToolConfigurationFindById tid \<notin> set (ops (gather jsonParse ?db3 ?jid job [] p None))" for p
      by (simp add: gather_def Let_def split: sum.splits)
    from assms(1) obtain tplId template
      where tpl: "nextActionTemplateId (checkListSet job) = Some tplId" "tplId \<noteq> []"
                 "promptTemplates db tplId = Some template"
        and r: "preGenerateNextAction jsonParse newDate db params =
                  gather jsonParse ?db3 ?jid job (?done3 @ [PromptTemplateFindUnique tplId])
                    (row_prompt template) (row_toolConfigurationId template)"
        and looked: "ToolConfigurationFindById tid \<in>
                       set (ops (gather jsonParse ?db3 ?jid job [] (row_prompt template)
                                   (row_toolConfigurationId template)))"
      unfolding run using unset
      by (auto simp add: gather_ops split: option.splits if_splits)
    from gather_lookup [OF looked, of "?done3 @ [PromptTemplateFindUnique tplId]"] assms(2)
    obtain enriched where tc: "row_toolConfigurationId template = Some tid"
      and out: "outcome (preGenerateNextAction jsonParse newDate db params) =
                  Inr (prepared (row_prompt template) \<lparr>allResults = enriched\<rparr> None)"
      unfolding r by auto
    have st: "statusWrites (preGenerateNextAction jsonParse newDate db params) = [(?jid, PROCESSING)]"
      unfolding statusWrites_def r by (simp add: gather_statusWrites)
    have fin: "finalDb (preGenerateNextAction jsonParse newDate db params) = ?db3"
      unfolding r by (simp add: gather_finalDb)
    from Some tpl tc out st fin show ?thesis
      by (simp add: prepared_def)
  qed
qed

theorem C5_lookup_failure_tolerated_witness:
  "ToolConfigurationFindById ''t1'' \<in> set (ops (preGenerateNextAction noJson midnight
       (exampleDb (exampleJob True (Some ''tpl'')) [''tpl'' \<mapsto> exampleTemplate]) exampleParams))
   \<and> toolConfigurations (exampleDb (exampleJob True (Some ''tpl'')) [''tpl'' \<mapsto> exampleTemplate]) ''t1''
       = Inl (RepositoryError ''not found'')
   \<and> map_sum id (\<lambda>res. (shouldGenerate res, promptTemplate res, toolConfiguration res))
        (outcome (preGenerateNextAction noJson midnight
           (exampleDb (exampleJob True (Some ''tpl'')) [''tpl'' \<mapsto> exampleTemplate]) exampleParams))
       = Inr (True, Some \<lparr>prompt = ''custom''\<rparr>, None)
   \<and> statusWrites (preGenerateNextAction noJson midnight
           (exampleDb (exampleJob True (Some ''tpl'')) [''tpl'' \<mapsto> exampleTemplate]) exampleParams)
       = [(''j1'', PROCESSING)]"
proof -
  let ?db = "exampleDb (exampleJob True (Some ''tpl'')) [''tpl'' \<mapsto> exampleTemplate]"
  have looked: "ToolConfigurationFindById ''t1'' \<in>
                  set (ops (preGenerateNextAction noJson midnight ?db exampleParams))"
    by (simp add: example_defs run_defs)
  have thrown: "toolConfigurations ?db ''t1'' = Inl (RepositoryError ''not found'')"
    by (simp add: example_defs)
  from C5_lookup_failure_tolerated [OF looked thrown] looked thrown show ?thesis
    by (auto simp add: example_defs)
qed

section \<open>The template data\<close>



section \<open>Determinism\<close>

text \<open>
  C7, as the specification states it, fails on the writes: every update carries
  \<open>updatedAt: new Date()\<close>, so two runs on the same database with the same
  parameters, started at different times, issue different writes.
\<close>

theorem C7_clock_counterexample:
  "writes (preGenerateNextAction noJson midnight (exampleDb (exampleJob True None) Map.empty) exampleParams)
     = [ReviewJobUpdate ''j1'' PROCESSING 0]
   \<and> writes (preGenerateNextAction noJson ticking (exampleDb (exampleJob True None) Map.empty) exampleParams)
     = [ReviewJobUpdate ''j1'' PROCESSING 1]
   \<and> writes (preGenerateNextAction noJson midnight (exampleDb (exampleJob True None) Map.empty) exampleParams)
     \<noteq> writes (preGenerateNextAction noJson ticking (exampleDb (exampleJob True None) Map.empty) exampleParams)"
  by (simp add: example_defs run_defs writes_def)

text \<open>
  C7, amended. With the database as an input, two runs with the same parameters
  return identical results and issue the same sequence of database operations (reads
  and writes, to the same records, with the same status values) whatever the clock
  reads; the runs differ at most in the \<open>updatedAt\<close> times that their writes carry.
\<close>

theorem C7_deterministic_up_to_clock:
  "outcome (preGenerateNextAction jsonParse newDate db params) =
     outcome (preGenerateNextAction jsonParse newDate' db params)
   \<and> map withoutTime (ops (preGenerateNextAction jsonParse newDate db params)) =
       map withoutTime (ops (preGenerateNextAction jsonParse newDate' db params))
   \<and> statusWrites (preGenerateNextAction jsonParse newDate db params) =
       statusWrites (preGenerateNextAction jsonParse newDate' db params)"
proof (cases "reviewJobs db (reviewJobId params)")
  case None
  show ?thesis
    by (simp add: run_missing [OF None] statusWrites_def)
next
  case (Some job)
  show ?thesis
  proof (cases "enableNextAction (checkListSet job)")
    case False
    show ?thesis
      by (simp add: run_disabled [OF Some False] statusWrites_def)
  next
    case True
    show ?thesis
      unfolding statusWrites_def
      by (simp add: run_enabled [OF Some True] Let_def gather_jobs_outcome gather_done_outcome gather_ops
            gather_jobs_ops gather_statusWrites split: option.splits)
  qed
qed

theorem C7_deterministic_up_to_clock_witness:
  "outcome (preGenerateNextAction noJson midnight (exampleDb (exampleJob True (Some ''t9'')) Map.empty) exampleParams)
     = outcome (preGenerateNextAction noJson ticking (exampleDb (exampleJob True (Some ''t9'')) Map.empty) exampleParams)
   \<and> statusWrites (preGenerateNextAction noJson ticking (exampleDb (exampleJob True (Some ''t9'')) Map.empty) exampleParams)
     = [(''j1'', PROCESSING), (''j1'', FAILED)]"
proof -
  have "statusWrites (preGenerateNextAction noJson midnight
          (exampleDb (exampleJob True (Some ''t9'')) Map.empty) exampleParams)
        = [(''j1'', PROCESSING), (''j1'', FAILED)]"
    by (simp add: example_defs run_defs statusWrites_def)
  with C7_deterministic_up_to_clock [of noJson midnight
         "exampleDb (exampleJob True (Some ''t9'')) Map.empty" exampleParams ticking]
  show ?thesis by simp
qed

section \<open>Resolving source references\<close>

text \<open>
  C8, as the specification states it, fails twice. An array that holds \<open>null\<close> makes
  the callback read \<open>ref.documentId\<close> of \<open>null\<close>, and the function throws a
  TypeError instead of returning an array. And a document id that is in the job's
  document map with an empty filename gives \<open>"Unknown"\<close>, not the mapped filename,
  because of \<open>documentMap.get(...) || "Unknown"\<close>.
\<close>

theorem C8_null_element_and_empty_filename_counterexample:
  "resolveSourceReferences noJson (documentMap [\<lparr>doc_id = ''d1'', doc_filename = ''a.pdf''\<rparr>])
     (JArr [JNull]) = Inl TypeError
   \<and> documentMap [\<lparr>doc_id = ''d2'', doc_filename = []\<rparr>] ''d2'' = Some []
   \<and> resolveSourceReferences noJson (documentMap [\<lparr>doc_id = ''d2'', doc_filename = []\<rparr>])
       (JArr [JObj [(''documentId'', JStr ''d2'')]])
       = Inr [\<lparr>filename = ''Unknown'', pageNumber = JNull\<rparr>]"
  by (simp add: resolveSourceReferences_def parsedRefs_def resolveRef_def documentMap_def
        nullish_def noJson_def)

text \<open>
  C8, amended. \<open>resolveSourceReferences\<close> returns the empty array for \<open>null\<close>,
  \<open>undefined\<close> and every other falsy value, for a string that is not valid JSON,
  and for a parsed value that is not an array. For an array with no \<open>null\<close> or
  \<open>undefined\<close> element it returns an array with one entry per element, in order:
  the entry's filename is the mapped filename when \<open>documentId\<close> is a non-empty
  string that the document map sends to a non-empty filename, and \<open>"Unknown"\<close>
  otherwise; its \<open>pageNumber\<close> is null when the element has no \<open>pageNumber\<close> (or a
  null one), and the element's \<open>pageNumber\<close> otherwise. Arrays with a \<open>null\<close> or
  \<open>undefined\<close> element are left out.
\<close>

theorem C8_resolveSourceReferences_result:
  "(\<not> truthy refs \<longrightarrow> resolveSourceReferences jsonParse dm refs = Inr [])
   \<and> (\<forall>s. refs = JStr s \<and> jsonParse s = None \<longrightarrow> resolveSourceReferences jsonParse dm refs = Inr [])
   \<and> (\<forall>parsed. parsedRefs jsonParse refs = Some parsed \<and> (\<forall>elems. parsed \<noteq> JArr elems) \<longrightarrow>
         resolveSourceReferences jsonParse dm refs = Inr [])
   \<and> (\<forall>elems. truthy refs \<and> parsedRefs jsonParse refs = Some (JArr elems) \<and>
         JNull \<notin> set elems \<and> JUndefined \<notin> set elems \<longrightarrow>
         (\<exists>out. resolveSourceReferences jsonParse dm refs = Inr out \<and>
            length out = length elems \<and>
            (\<forall>i < length elems.
               \<exists>documentId pn.
                 getProperty (elems ! i) ''documentId'' = Inr documentId \<and>
                 getProperty (elems ! i) ''pageNumber'' = Inr pn \<and>
                 filename (out ! i) =
                   (case documentId of
                      JStr k \<Rightarrow>
                        (case dm k of
                           None \<Rightarrow> ''Unknown''
                         | Some f \<Rightarrow> if k \<noteq> [] \<and> f \<noteq> [] then f else ''Unknown'')
                    | _ \<Rightarrow> ''Unknown'') \<and>
                 pageNumber (out ! i) = (if pn = JUndefined \<or> pn = JNull then JNull else pn))))"
proof (intro conjI allI impI)
  assume "\<not> truthy refs"
  then show "resolveSourceReferences jsonParse dm refs = Inr []"
    by (simp add: resolveSourceReferences_def)
next
  fix s
  assume "refs = JStr s \<and> jsonParse s = None"
  then show "resolveSourceReferences jsonParse dm refs = Inr []"
    by (simp add: resolveSourceReferences_def parsedRefs_def)
next
  fix parsed
  assume "parsedRefs jsonParse refs = Some parsed \<and> (\<forall>elems. parsed \<noteq> JArr elems)"
  then show "resolveSourceReferences jsonParse dm refs = Inr []"
    by (cases parsed) (simp_all add: resolveSourceReferences_def)
next
  fix elems
  assume a: "truthy refs \<and> parsedRefs jsonParse refs = Some (JArr elems) \<and>
             JNull \<notin> set elems \<and> JUndefined \<notin> set elems"
  then have res: "resolveSourceReferences jsonParse dm refs = mapE (resolveRef dm) elems"
    by (simp add: resolveSourceReferences_def)
  have "\<exists>y. resolveRef dm x = Inr y" if "x \<in> set elems" for x
    using that a by (intro resolveRef_defined) auto
  then obtain out where out: "mapE (resolveRef dm) elems = Inr out"
    using mapE_defined [of elems "resolveRef dm"] by blast
  have len: "length out = length elems"
    by (rule mapE_length [OF out])
  have each: "\<exists>documentId pn.
                 getProperty (elems ! i) ''documentId'' = Inr documentId \<and>
                 getProperty (elems ! i) ''pageNumber'' = Inr pn \<and>
                 filename (out ! i) =
                   (case documentId of
                      JStr k \<Rightarrow>
                        (case dm k of
                           None \<Rightarrow> ''Unknown''
                         | Some f \<Rightarrow> if k \<noteq> [] \<and> f \<noteq> [] then f else ''Unknown'')
                    | _ \<Rightarrow> ''Unknown'') \<and>
                 pageNumber (out ! i) = (if pn = JUndefined \<or> pn = JNull then JNull else pn)"
    if i: "i < length elems" for i
    by (rule resolveRef_fields [OF mapE_nth [OF out i]])
  from res out len each
  show "\<exists>out. resolveSourceReferences jsonParse dm refs = Inr out \<and>
            length out = length elems \<and>
            (\<forall>i < length elems.
               \<exists>documentId pn.
                 getProperty (elems ! i) ''documentId'' = Inr documentId \<and>
                 getProperty (elems ! i) ''pageNumber'' = Inr pn \<and>
                 filename (out ! i) =
                   (case documentId of
                      JStr k \<Rightarrow>
                        (case dm k of
                           None \<Rightarrow> ''Unknown''
                         | Some f \<Rightarrow> if k \<noteq> [] \<and> f \<noteq> [] then f else ''Unknown'')
                    | _ \<Rightarrow> ''Unknown'') \<and>
                 pageNumber (out ! i) = (if pn = JUndefined \<or> pn = JNull then JNull else pn))"
    by simp
qed

theorem C8_resolveSourceReferences_result_witness:
  "resolveSourceReferences sevenJson (documentMap [\<lparr>doc_id = ''d1'', doc_filename = ''a.pdf''\<rparr>])
     (JArr [JObj [(''documentId'', JStr ''d1''), (''pageNumber'', JNum 3)],
            JObj [(''documentId'', JStr ''d9'')], JNum 7])
     = Inr [\<lparr>filename = ''a.pdf'', pageNumber = JNum 3\<rparr>,
            \<lparr>filename = ''Unknown'', pageNumber = JNull\<rparr>,
            \<lparr>filename = ''Unknown'', pageNumber = JNull\<rparr>]
   \<and> resolveSourceReferences sevenJson (documentMap [\<lparr>doc_id = ''d1'', doc_filename = ''a.pdf''\<rparr>])
       (JStr ''[7]'') = Inr [\<lparr>filename = ''Unknown'', pageNumber = JNull\<rparr>]
   \<and> resolveSourceReferences sevenJson (documentMap [\<lparr>doc_id = ''d1'', doc_filename = ''a.pdf''\<rparr>])
       (JStr ''not json'') = Inr []
   \<and> resolveSourceReferences sevenJson (documentMap [\<lparr>doc_id = ''d1'', doc_filename = ''a.pdf''\<rparr>])
       JNull = Inr []"
proof -
  let ?dm = "documentMap [\<lparr>doc_id = ''d1'', doc_filename = ''a.pdf''\<rparr>]"
  let ?elems = "[JObj [(''documentId'', JStr ''d1''), (''pageNumber'', JNum 3)],
                 JObj [(''documentId'', JStr ''d9'')], JNum 7]"
  have p: "truthy (JArr ?elems) \<and> parsedRefs sevenJson (JArr ?elems) = Some (JArr ?elems) \<and>
           JNull \<notin> set ?elems \<and> JUndefined \<notin> set ?elems"
    by (simp add: parsedRefs_def)
  from C8_resolveSourceReferences_result [of "JArr ?elems" sevenJson ?dm] p
  obtain out where "resolveSourceReferences sevenJson ?dm (JArr ?elems) = Inr out"
    and "length out = 3"
    by auto
  have bad: "sevenJson ''not json'' = None"
    by (simp add: sevenJson_def)
  from C8_resolveSourceReferences_result [of "JStr ''not json''" sevenJson ?dm] bad
  have nj: "resolveSourceReferences sevenJson ?dm (JStr ''not json'') = Inr []"
    by blast
  from C8_resolveSourceReferences_result [of JNull sevenJson ?dm]
  have nu: "resolveSourceReferences sevenJson ?dm JNull = Inr []"
    by simp
  have "resolveSourceReferences sevenJson ?dm (JArr ?elems)
     = Inr [\<lparr>filename = ''a.pdf'', pageNumber = JNum 3\<rparr>,
            \<lparr>filename = ''Unknown'', pageNumber = JNull\<rparr>,
            \<lparr>filename = ''Unknown'', pageNumber = JNull\<rparr>]"
    by (simp add: resolveSourceReferences_def parsedRefs_def resolveRef_def documentMap_def
          nullish_def)
  moreover have "resolveSourceReferences sevenJson ?dm (JStr ''[7]'')
     = Inr [\<lparr>filename = ''Unknown'', pageNumber = JNull\<rparr>]"
    by (simp add: resolveSourceReferences_def parsedRefs_def resolveRef_def documentMap_def
          nullish_def sevenJson_def)
  ultimately show ?thesis using nj nu by simp
qed

section \<open>The shape of every result\<close>

text \<open>
  C9. Every result that the run returns satisfies: \<open>shouldGenerate\<close> is true if and
  only if \<open>promptTemplate\<close> and \<open>templateData\<close> are both present; and when
  \<open>shouldGenerate\<close> is false, a non-empty \<open>message\<close> is present and
  \<open>promptTemplate\<close>, \<open>templateData\<close> and \<open>toolConfiguration\<close> are all absent.
\<close>

theorem C9_result_invariant:
  assumes "outcome (preGenerateNextAction jsonParse newDate db params) = Inr res"
  shows "(shouldGenerate res \<longleftrightarrow> promptTemplate res \<noteq> None \<and> templateData res \<noteq> None)
       \<and> (\<not> shouldGenerate res \<longrightarrow>
            (\<exists>msg. message res = Some msg \<and> msg \<noteq> []) \<and>
            promptTemplate res = None \<and> templateData res = None \<and> toolConfiguration res = None)"
proof -
  have "(\<exists>msg. msg \<noteq> [] \<and> res = declined msg) \<or> (\<exists>p td c. res = prepared p td c)"
  proof (cases "reviewJobs db (reviewJobId params)")
    case None
    from run_missing [OF None, of jsonParse newDate] assms show ?thesis
      by auto
  next
    case (Some job)
    show ?thesis
    proof (cases "enableNextAction (checkListSet job)")
      case False
      from run_disabled [OF Some False, of jsonParse newDate] assms show ?thesis
        by auto
    next
      case True
      from run_enabled [OF Some True, of jsonParse newDate] assms show ?thesis
        by (auto simp add: Let_def split: option.splits if_splits dest!: gather_outcome)
    qed
  qed
  then show ?thesis
    by (auto simp add: declined_def prepared_def)
qed

theorem C9_result_invariant_witness:
  "outcome (preGenerateNextAction noJson midnight (exampleDb (exampleJob False None) Map.empty) exampleParams)
     = Inr (declined ''Next Action is disabled'')
   \<and> \<not> shouldGenerate (declined ''Next Action is disabled'')
   \<and> message (declined ''Next Action is disabled'') = Some ''Next Action is disabled''
   \<and> promptTemplate (declined ''Next Action is disabled'') = None
   \<and> templateData (declined ''Next Action is disabled'') = None
   \<and> toolConfiguration (declined ''Next Action is disabled'') = None"
proof -
  have out: "outcome (preGenerateNextAction noJson midnight
                (exampleDb (exampleJob False None) Map.empty) exampleParams)
               = Inr (declined ''Next Action is disabled'')"
    by (simp add: example_defs run_defs)
  have off: "\<not> shouldGenerate (declined ''Next Action is disabled'')"
    by (simp add: declined_def)
  from C9_result_invariant [OF out] out off show ?thesis
    by (simp add: declined_def)
qed

section \<open>Submitting the editor's form\<close>

text \<open>
  C10, as the specification states it, fails where the editor's state holds the empty
  string, which the effect copies from a template stored with that value: the select
  then shows "no tool configuration", so none is selected, and \<open>handleSubmit\<close>
  hands \<open>onSave\<close> the empty string, not \<open>null\<close>, because \<open>??\<close> replaces only
  \<open>undefined\<close> and \<open>null\<close>.
\<close>

theorem C10_empty_id_counterexample:
  "ed_toolConfigurationId (syncTemplate emptyIdTemplate blankEditor) = Value []
   \<and> selectValue (syncTemplate emptyIdTemplate blankEditor) = []
   \<and> req_toolConfigurationId
        (fst (handleSubmit NEXT_ACTION (\<lambda>data. True) (syncTemplate emptyIdTemplate blankEditor)))
       = Value []
   \<and> req_toolConfigurationId
        (fst (handleSubmit NEXT_ACTION (\<lambda>data. True) (syncTemplate emptyIdTemplate blankEditor)))
       \<noteq> Null"
  by (simp add: handleSubmit_def syncTemplate_def selectValue_def emptyIdTemplate_def
        blankEditor_def Let_def)

text \<open>
  C10, amended. On every submission, \<open>handleSubmit\<close> hands \<open>onSave\<close> a
  \<open>toolConfigurationId\<close> other than \<open>undefined\<close> only when the editor's type is
  NEXT_ACTION. Then it is the string held in the editor's \<open>toolConfigurationId\<close>
  state, and \<open>null\<close> when that state is \<open>undefined\<close> or \<open>null\<close>: so it is the
  selected id when the select shows one, \<open>null\<close> when the select shows none and the
  state is not the empty string, and after a choice in the select it is the chosen id,
  or \<open>null\<close> for the empty option. For the types CHECKLIST and REVIEW it is
  \<open>undefined\<close>, whatever the state holds.
\<close>

theorem C10_toolConfigurationId_submitted:
  "req_toolConfigurationId (fst (handleSubmit NEXT_ACTION onSave st)) =
     (case ed_toolConfigurationId st of Value i \<Rightarrow> Value i | _ \<Rightarrow> Null)
   \<and> (selectValue st \<noteq> [] \<longrightarrow>
         req_toolConfigurationId (fst (handleSubmit NEXT_ACTION onSave st)) = Value (selectValue st))
   \<and> (selectValue st = [] \<and> ed_toolConfigurationId st \<noteq> Value [] \<longrightarrow>
         req_toolConfigurationId (fst (handleSubmit NEXT_ACTION onSave st)) = Null)
   \<and> req_toolConfigurationId (fst (handleSubmit NEXT_ACTION onSave (selectToolConfiguration v st))) =
       (if v \<noteq> [] then Value v else Null)
   \<and> req_toolConfigurationId (fst (handleSubmit NEXT_ACTION onSave (selectToolConfiguration [] st))) = Null
   \<and> req_toolConfigurationId (fst (handleSubmit CHECKLIST onSave st)) = Undefined
   \<and> req_toolConfigurationId (fst (handleSubmit REVIEW onSave st)) = Undefined
   \<and> (req_toolConfigurationId (fst (handleSubmit ty onSave st)) \<noteq> Undefined \<longleftrightarrow> ty = NEXT_ACTION)"
proof -
  have sent: "req_toolConfigurationId (fst (handleSubmit t onSave s)) =
                (if t = NEXT_ACTION
                 then (case ed_toolConfigurationId s of Value i \<Rightarrow> Value i | _ \<Rightarrow> Null)
                 else Undefined)" for t s
    by (simp add: handleSubmit_def Let_def split: nullable.splits)
  show ?thesis
    unfolding sent
    by (cases ty; cases "ed_toolConfigurationId st")
       (simp_all add: selectValue_def selectToolConfiguration_def)
qed

theorem C10_toolConfigurationId_submitted_witness:
  "selectValue (selectToolConfiguration ''t1'' blankEditor) = ''t1''
   \<and> req_toolConfigurationId (fst (handleSubmit NEXT_ACTION (\<lambda>data. True)
        (selectToolConfiguration ''t1'' blankEditor))) = Value ''t1''
   \<and> selectValue blankEditor = []
   \<and> req_toolConfigurationId (fst (handleSubmit NEXT_ACTION (\<lambda>data. True) blankEditor)) = Null
   \<and> req_toolConfigurationId (fst (handleSubmit REVIEW (\<lambda>data. True)
        (selectToolConfiguration ''t1'' blankEditor))) = Undefined"
proof -
  have shown: "selectValue (selectToolConfiguration ''t1'' blankEditor) = ''t1''"
    by (simp add: selectValue_def selectToolConfiguration_def)
  have none: "selectValue blankEditor = [] \<and> ed_toolConfigurationId blankEditor \<noteq> Value []"
    by (simp add: selectValue_def blankEditor_def)
  note chosen = C10_toolConfigurationId_submitted
         [of "\<lambda>data. True" "selectToolConfiguration ''t1'' blankEditor" "''t1''" REVIEW]
  note blank = C10_toolConfigurationId_submitted [of "\<lambda>data. True" blankEditor "''t1''" REVIEW]
  from chosen
  have "selectValue (selectToolConfiguration ''t1'' blankEditor) \<noteq> [] \<longrightarrow>
        req_toolConfigurationId (fst (handleSubmit NEXT_ACTION (\<lambda>data. True)
          (selectToolConfiguration ''t1'' blankEditor)))
          = Value (selectValue (selectToolConfiguration ''t1'' blankEditor))"
    by blast
  with shown
  have sel: "req_toolConfigurationId (fst (handleSubmit NEXT_ACTION (\<lambda>data. True)
               (selectToolConfiguration ''t1'' blankEditor))) = Value ''t1''"
    by simp
  from chosen
  have rev: "req_toolConfigurationId (fst (handleSubmit REVIEW (\<lambda>data. True)
               (selectToolConfiguration ''t1'' blankEditor))) = Undefined"
    by blast
  from blank
  have "selectValue blankEditor = [] \<and> ed_toolConfigurationId blankEditor \<noteq> Value [] \<longrightarrow>
        req_toolConfigurationId (fst (handleSubmit NEXT_ACTION (\<lambda>data. True) blankEditor)) = Null"
    by blast
  with none
  have nul: "req_toolConfigurationId (fst (handleSubmit NEXT_ACTION (\<lambda>data. True) blankEditor)) = Null"
    by blast
  from shown sel none nul rev show ?thesis
    by blast
qed

end
